theory Spec2Isabelle
  imports Complex_Main
begin

section \<open>The event, demography, intervention and survey operators of helsim\<close>

text \<open>
  A shallow embedding of \<^verbatim>\<open>sch_simulation/helsim_FUNC_KK/events.py\<close>.

  Conventions of the embedding.
  \<^item> A one-dimensional numpy array is a list. Python floats are modelled by \<open>real\<close>
    (rounding and overflow are not modelled); a float that numpy has made non-finite by
    a division by zero (\<open>nan\<close>, \<open>inf\<close>) is \<open>None\<close> of \<open>real option\<close>.
  \<^item> The program mutates one \<open>SDEquilibrium\<close> object in place and may raise after some
    of its writes are done. Every operation therefore returns the pair of the state as
    it is when the call ends and the outcome of the call: \<open>Inl\<close> the exception raised,
    \<open>Inr\<close> the value returned.
  \<^item> Random variates are arguments. A call \<open>np.random.uniform(size = n)\<close> is
    \<open>map u [0..<n]\<close> for a function \<open>u\<close> giving the variate drawn for each position; the
    external samplers (\<open>getLifeSpans\<close>, \<open>getSetOfEggCounts\<close>, the gamma and binomial
    samplers) are functions giving their values in the same way.
\<close>

subsection \<open>Exceptions\<close>

datatype error = ValueError string | IndexError | AssertionError

definition ebind :: "error + 'a \<Rightarrow> ('a \<Rightarrow> error + 'b) \<Rightarrow> error + 'b" where
  "ebind m f = (case m of Inl e \<Rightarrow> Inl e | Inr x \<Rightarrow> f x)"

subsection \<open>The population state and the parameters\<close>

record Worms =
  total :: "int list"
  female :: "int list"

record Demography =
  birthDate :: "real list"
  deathDate :: "real list"

text \<open>An entry of \<open>attendanceRecord\<close>: \<open>doChemo\<close> appends a boolean mask,
  \<open>doChemoAgeRange\<close> an array of indices.\<close>

datatype attendance = Mask "bool list" | Indices "nat list"

record SDEquilibrium =
  si :: "real list"
  sv :: "int list"
  worms :: Worms
  freeLiving :: "real option"
  demography :: Demography
  contactAgeGroupIndices :: "int list"
  treatmentAgeGroupIndices :: "int list"
  adherenceFactors :: "real list"
  compliers :: "bool list"
  attendanceRecord :: "attendance list"
  ageAtChemo :: "real list list"
  adherenceFactorAtChemo :: "real list list"
  vaccCount :: int
  numSurvey :: int
  VaccTreatmentAgeGroupIndices :: "int list option"
  nChemo1 :: "int option"
  nChemo2 :: "int option"
  numSurveyTwo :: "int option"

text \<open>The fields of \<open>Parameters\<close> that \<^verbatim>\<open>events.py\<close> reads. The aggregation parameter
  \<open>k\<close> only parametrises the gamma sampler, whose draws are arguments here.\<close>

record Parameters =
  N :: nat
  v1 :: "real list"
  v2 :: "real list"
  v3 :: "real list"
  reproFuncName :: string
  SR :: bool
  lambda_egg :: real
  gamma :: real
  psi :: real
  rho :: "real list"
  LDecayRate :: real
  propNeverCompliers :: real
  contactAgeGroupBreaks :: "real list option"
  treatmentAgeGroupBreaks :: "real list option"
  VaccTreatmentAgeGroupBreaks :: "real list option"
  VaccTreatmentBreaks :: "real list"
  DrugEfficacy1 :: real
  DrugEfficacy2 :: real
  drug1Years :: "real list option"
  drug2Years :: "real list option"
  drug1Split :: "real list option"
  drug2Split :: "real list option"
  minSurveyAge :: real
  maxSurveyAge :: real
  Unfertilized :: bool

type_synonym 'a run = "SDEquilibrium \<times> (error + 'a)"

text \<open>\<open>andThen r f\<close>: the statements \<open>f\<close> run after the statements \<open>r\<close>, unless \<open>r\<close> raised.\<close>

definition andThen :: "unit run \<Rightarrow> (SDEquilibrium \<Rightarrow> 'a run) \<Rightarrow> 'a run" where
  "andThen r f = (case snd r of Inl e \<Rightarrow> (fst r, Inl e) | Inr _ \<Rightarrow> f (fst r))"

text \<open>\<open>store SD m upd\<close>: an assignment whose right-hand side \<open>m\<close> may raise; the state is
  written only when it does not.\<close>

definition store :: "SDEquilibrium \<Rightarrow> error + 'a \<Rightarrow> ('a \<Rightarrow> SDEquilibrium) \<Rightarrow> unit run" where
  "store SD m upd = (case m of Inl e \<Rightarrow> (SD, Inl e) | Inr v \<Rightarrow> (upd v, Inr ()))"

subsection \<open>numpy operations on one-dimensional arrays\<close>

text \<open>\<open>a[i]\<close> for an integer \<open>i\<close>: a negative index counts from the end, an index out of
  range raises.\<close>

definition np_index :: "'a list \<Rightarrow> int \<Rightarrow> error + nat" where
  "np_index a i =
     (if 0 \<le> i \<and> i < int (length a) then Inr (nat i)
      else if i < 0 \<and> - int (length a) \<le> i then Inr (nat (int (length a) + i))
      else Inl IndexError)"

definition np_get :: "'a list \<Rightarrow> int \<Rightarrow> error + 'a" where
  "np_get a i = ebind (np_index a i) (\<lambda>j. Inr (a ! j))"

text \<open>\<open>np.take(a, ind)\<close> and \<open>a[ind]\<close> for an index array.\<close>

fun np_take :: "'a list \<Rightarrow> int list \<Rightarrow> error + 'a list" where
  "np_take a [] = Inr []"
| "np_take a (i # ind) =
     ebind (np_get a i) (\<lambda>x. ebind (np_take a ind) (\<lambda>xs. Inr (x # xs)))"

text \<open>An elementwise binary operation, with numpy's broadcasting of a one-element
  array.\<close>

definition np_binop :: "('a \<Rightarrow> 'b \<Rightarrow> 'c) \<Rightarrow> 'a list \<Rightarrow> 'b list \<Rightarrow> error + 'c list" where
  "np_binop f xs ys =
     (if length xs = length ys then Inr (map2 f xs ys)
      else if length xs = 1 then Inr (map (f (hd xs)) ys)
      else if length ys = 1 then Inr (map (\<lambda>x. f x (hd ys)) xs)
      else Inl (ValueError ''operands could not be broadcast together''))"

text \<open>\<open>sum(mask)\<close> and \<open>np.sum(mask)\<close> of a boolean array.\<close>

definition count_true :: "bool list \<Rightarrow> nat" where
  "count_true msk = length (filter id msk)"

text \<open>\<open>a[mask]\<close> for a boolean mask, and \<open>np.extract(mask, a)\<close>.\<close>

definition np_extract :: "bool list \<Rightarrow> 'a list \<Rightarrow> 'a list" where
  "np_extract msk a = map snd (filter fst (zip msk a))"

definition np_mask :: "'a list \<Rightarrow> bool list \<Rightarrow> error + 'a list" where
  "np_mask a msk = (if length msk = length a then Inr (np_extract msk a) else Inl IndexError)"

text \<open>\<open>a[mask] = v\<close> for a boolean mask and a scalar \<open>v\<close>.\<close>

definition np_mask_assign :: "'a list \<Rightarrow> bool list \<Rightarrow> 'a \<Rightarrow> error + 'a list" where
  "np_mask_assign a msk v =
     (if length msk = length a then Inr (map2 (\<lambda>m x. if m then v else x) msk a)
      else Inl IndexError)"

text \<open>\<open>np.argmax\<close> of a boolean array: the first \<open>True\<close>, 0 when there is none; an empty
  array raises.\<close>

fun first_true :: "bool list \<Rightarrow> nat" where
  "first_true [] = 0"
| "first_true (b # bs) = (if b then 0 else Suc (first_true bs))"

definition np_argmax :: "bool list \<Rightarrow> error + nat" where
  "np_argmax bs =
     (if bs = [] then Inl (ValueError ''attempt to get argmax of an empty sequence'')
      else if first_true bs < length bs then Inr (first_true bs) else Inr 0)"

fun cumsum_from :: "real \<Rightarrow> real list \<Rightarrow> real list" where
  "cumsum_from s [] = []"
| "cumsum_from s (x # xs) = (s + x) # cumsum_from (s + x) xs"

definition np_cumsum :: "real list \<Rightarrow> real list" where
  "np_cumsum xs = cumsum_from 0 xs"

text \<open>\<open>x / y\<close> on numpy scalars: a zero divisor gives a non-finite value and no
  exception.\<close>

definition np_divide :: "real option \<Rightarrow> real option \<Rightarrow> real option" where
  "np_divide x y =
     (case x of None \<Rightarrow> None
      | Some a \<Rightarrow> (case y of None \<Rightarrow> None
          | Some b \<Rightarrow> if b = 0 then None else Some (a / b)))"

text \<open>\<open>np.random.choice(a, size, replace=False)\<close>: the first \<open>size\<close> positions of the
  permutation \<open>perm\<close> of the positions of \<open>a\<close> that the generator drew.\<close>

definition np_choice :: "nat list \<Rightarrow> 'a list \<Rightarrow> int \<Rightarrow> error + 'a list" where
  "np_choice perm a sz =
     (if sz < 0 then Inl (ValueError ''negative dimensions are not allowed'')
      else if int (length a) < sz
        then Inl (ValueError ''Cannot take a larger sample than population'')
      else Inr (map (\<lambda>i. a ! i) (take (nat sz) perm)))"

subsection \<open>SurveyEngine: conductSurvey and conductSurveyTwo\<close>

text \<open>\<open>getSetOfEggCounts\<close> is an external sampler: \<open>reading c\<close> is the array its call
  number \<open>c\<close> (counted from 0 within one survey) returns. \<open>addEggCounts reading c n\<close> is
  the loop body \<open>eggCounts = np.add(eggCounts, getSetOfEggCounts(...))\<close> run \<open>n\<close> times,
  the next call being number \<open>c\<close>.\<close>

type_synonym eggSampler = "nat \<Rightarrow> int list \<Rightarrow> int list \<Rightarrow> Parameters \<Rightarrow> bool \<Rightarrow> real list"

fun addEggCounts :: "(nat \<Rightarrow> real list) \<Rightarrow> nat \<Rightarrow> nat \<Rightarrow> real list \<Rightarrow> error + real list" where
  "addEggCounts reading c 0 eggCounts = Inr eggCounts"
| "addEggCounts reading c (Suc n) eggCounts =
     ebind (np_binop (+) eggCounts (reading c)) (addEggCounts reading (Suc c) n)"

text \<open>\<open>np.sum(sampledEggs > 0.9) / KKSampleSize\<close>.\<close>

definition prevalence :: "real list \<Rightarrow> int \<Rightarrow> real option" where
  "prevalence sampledEggs KKSampleSize =
     np_divide (Some (real (count_true (map (\<lambda>e. e > 0.9) sampledEggs))))
       (Some (real_of_int KKSampleSize))"

definition conductSurvey ::
  "eggSampler \<Rightarrow> nat list \<Rightarrow> SDEquilibrium \<Rightarrow> Parameters \<Rightarrow> real \<Rightarrow> int \<Rightarrow> int
     \<Rightarrow> (real option) run" where
  "conductSurvey getSetOfEggCounts perm SD params t sampleSize nSamples =
     (let minAge = minSurveyAge params;
          maxAge = maxSurveyAge params
      in if nSamples < 1 then (SD, Inl (ValueError ''nSamples < 1''))
      else
        let reading = (\<lambda>c. getSetOfEggCounts c (total (worms SD)) (female (worms SD))
                              params (Unfertilized params))
        in case
          ebind (addEggCounts reading 1 (nat (nSamples - 1)) (reading 0)) (\<lambda>eggCounts.
            let eggCounts = map (\<lambda>e. e / real_of_int nSamples) eggCounts;
                ages = map (\<lambda>b. - (b - t)) (birthDate (demography SD));
                surveyAged = map (\<lambda>a. a \<ge> minAge \<and> a \<le> maxAge) ages
            in ebind (np_mask eggCounts surveyAged) (\<lambda>surveyEggs.
                 let KKSampleSize = min sampleSize (int (count_true surveyAged))
                 in ebind (np_choice perm surveyEggs KKSampleSize) (\<lambda>sampledEggs.
                      Inr (prevalence sampledEggs KKSampleSize))))
        of Inl e \<Rightarrow> (SD, Inl e)
         | Inr p \<Rightarrow> (SD\<lparr>numSurvey := numSurvey SD + 1\<rparr>, Inr p))"

definition conductSurveyTwo ::
  "eggSampler \<Rightarrow> nat list \<Rightarrow> SDEquilibrium \<Rightarrow> Parameters \<Rightarrow> real \<Rightarrow> int \<Rightarrow> int
     \<Rightarrow> (real option) run" where
  "conductSurveyTwo getSetOfEggCounts perm SD params t sampleSize nSamples =
     (if nSamples < 1 then (SD, Inl (ValueError ''nSamples < 1''))
      else
        let reading = (\<lambda>c. getSetOfEggCounts c (total (worms SD)) (female (worms SD))
                              params (Unfertilized params))
        in case
          ebind (addEggCounts reading 1 (nat nSamples) (reading 0)) (\<lambda>eggCounts.
            let eggCounts = map (\<lambda>e. e / real_of_int nSamples) eggCounts;
                KKSampleSize = min sampleSize (int (N params))
            in ebind (np_choice perm eggCounts KKSampleSize) (\<lambda>sampledEggs.
                 Inr (prevalence sampledEggs KKSampleSize)))
        of Inl e \<Rightarrow> (SD, Inl e)
         | Inr p \<Rightarrow>
            (case numSurveyTwo SD of
               None \<Rightarrow> (SD, Inl AssertionError)
             | Some n \<Rightarrow> (SD\<lparr>numSurveyTwo := Some (n + 1)\<rparr>, Inr p)))"

subsection \<open>A two-host population used to evaluate the operators\<close>

definition SD_example :: SDEquilibrium where
  "SD_example =
     \<lparr>si = [1, 1], sv = [0, 0], worms = \<lparr>total = [5, 7], female = [3, 2]\<rparr>,
      freeLiving = Some 10, demography = \<lparr>birthDate = [0, 0], deathDate = [50, 60]\<rparr>,
      contactAgeGroupIndices = [0, 0], treatmentAgeGroupIndices = [0, 0],
      adherenceFactors = [1 / 2, 1 / 2], compliers = [False, True],
      attendanceRecord = [], ageAtChemo = [], adherenceFactorAtChemo = [],
      vaccCount = 0, numSurvey = 0, VaccTreatmentAgeGroupIndices = Some [1, 3],
      nChemo1 = Some 0, nChemo2 = Some 0, numSurveyTwo = Some 0\<rparr>"

definition params_example :: Parameters where
  "params_example =
     \<lparr>N = 2, v1 = [1, 1], v2 = [1, 1], v3 = [1, 0],
      reproFuncName = ''epgFertility'', SR = True, lambda_egg = 1, gamma = 0, psi = 1,
      rho = [1], LDecayRate = 1 / 2, propNeverCompliers = 0,
      contactAgeGroupBreaks = Some [0, 100], treatmentAgeGroupBreaks = Some [0, 100],
      VaccTreatmentAgeGroupBreaks = Some [0, 100], VaccTreatmentBreaks = [5],
      DrugEfficacy1 = 1, DrugEfficacy2 = 1,
      drug1Years = Some [10], drug2Years = Some [], drug1Split = Some [1],
      drug2Split = Some [],
      minSurveyAge = 5, maxSurveyAge = 15, Unfertilized = False\<rparr>"

text \<open>An egg-count sampler whose first call reads one egg for host 0 and none for host 1,
  and whose later calls read none for host 0 and one for host 1.\<close>

definition eggs_example :: eggSampler where
  "eggs_example c tot fem params unfert = (if c = 0 then [1, 0] else [0, 1])"

subsection \<open>InterventionEngine: doVaccine\<close>




subsection \<open>DemographicUpdater: doDeath\<close>

text \<open>\<open>a[ind] = vals\<close> for an array \<open>ind\<close> of non-negative indices: numpy checks every
  index before it writes, then assigns in order.\<close>

fun assign_all :: "'a list \<Rightarrow> nat list \<Rightarrow> 'a list \<Rightarrow> 'a list" where
  "assign_all a (i # ind) (v # vals) = assign_all (a[i := v]) ind vals"
| "assign_all a ind vals = a"

definition np_assign :: "'a list \<Rightarrow> nat list \<Rightarrow> 'a list \<Rightarrow> error + 'a list" where
  "np_assign a ind vals =
     (if list_all (\<lambda>i. i < length a) ind then Inr (assign_all a ind vals)
      else Inl IndexError)"

text \<open>\<open>np.digitize(x, bins)\<close> with \<open>right=False\<close>: for non-decreasing bins the number of
  bins that are at most \<open>x\<close>, for non-increasing bins the number of bins above \<open>x\<close>;
  bins that are neither raise.\<close>

definition digitize1 :: "real list \<Rightarrow> real \<Rightarrow> nat" where
  "digitize1 bins x =
     (if sorted bins then length (filter (\<lambda>b. b \<le> x) bins)
      else length (filter (\<lambda>b. x < b) bins))"

definition np_digitize :: "real list \<Rightarrow> real list \<Rightarrow> error + nat list" where
  "np_digitize xs bins =
     (if sorted bins \<or> sorted (rev bins) then Inr (map (digitize1 bins) xs)
      else Inl (ValueError ''bins must be monotonically increasing or decreasing''))"

text \<open>\<open>np.digitize(t - SD.demography.birthDate, breaks) - 1\<close>.\<close>

definition ageGroupIndices :: "SDEquilibrium \<Rightarrow> real \<Rightarrow> real list \<Rightarrow> error + int list" where
  "ageGroupIndices SD t breaks =
     ebind (np_digitize (map (\<lambda>b. t - b) (birthDate (demography SD))) breaks)
       (\<lambda>d. Inr (map (\<lambda>k. int k - 1) d))"

text \<open>The body of \<open>if len(theDead) != 0\<close>. \<open>gammaDraw j\<close>, \<open>getLifeSpans j\<close>,
  \<open>uAdherence j\<close> and \<open>uComply j\<close> are the variates the four samplers draw for the
  \<open>j\<close>-th dead host.\<close>

definition rebirth ::
  "(nat \<Rightarrow> real) \<Rightarrow> (nat \<Rightarrow> real) \<Rightarrow> (nat \<Rightarrow> real) \<Rightarrow> (nat \<Rightarrow> real)
     \<Rightarrow> Parameters \<Rightarrow> nat list \<Rightarrow> real \<Rightarrow> SDEquilibrium \<Rightarrow> unit run" where
  "rebirth gammaDraw getLifeSpans uAdherence uComply params theDead t SD0 =
     (let n = length theDead in
      andThen (store SD0 (np_assign (si SD0) theDead (map gammaDraw [0..<n]))
                 (\<lambda>v. SD0\<lparr>si := v\<rparr>)) (\<lambda>SD.
      andThen (store SD (np_assign (sv SD) theDead (replicate n 0))
                 (\<lambda>v. SD\<lparr>sv := v\<rparr>)) (\<lambda>SD.
      andThen (store SD (np_assign (birthDate (demography SD)) theDead
                           (replicate n (t - 0.001)))
                 (\<lambda>v. SD\<lparr>demography := (demography SD)\<lparr>birthDate := v\<rparr>\<rparr>)) (\<lambda>SD.
      andThen (store SD (np_assign (deathDate (demography SD)) theDead
                           (map (\<lambda>j. t + getLifeSpans j) [0..<n]))
                 (\<lambda>v. SD\<lparr>demography := (demography SD)\<lparr>deathDate := v\<rparr>\<rparr>)) (\<lambda>SD.
      andThen (store SD (np_assign (total (worms SD)) theDead (replicate n 0))
                 (\<lambda>v. SD\<lparr>worms := (worms SD)\<lparr>total := v\<rparr>\<rparr>)) (\<lambda>SD.
      andThen (store SD (np_assign (female (worms SD)) theDead (replicate n 0))
                 (\<lambda>v. SD\<lparr>worms := (worms SD)\<lparr>female := v\<rparr>\<rparr>)) (\<lambda>SD.
      andThen (store SD (np_assign (adherenceFactors SD) theDead (map uAdherence [0..<n]))
                 (\<lambda>v. SD\<lparr>adherenceFactors := v\<rparr>)) (\<lambda>SD.
      store SD (np_assign (compliers SD) theDead
                  (map (\<lambda>j. uComply j > propNeverCompliers params) [0..<n]))
        (\<lambda>v. SD\<lparr>compliers := v\<rparr>)))))))))"

text \<open>The statements after the \<open>if\<close>: the three arrays of age-group indices.\<close>

definition updateAgeGroups :: "Parameters \<Rightarrow> real \<Rightarrow> SDEquilibrium \<Rightarrow> unit run" where
  "updateAgeGroups params t SD0 =
     (case contactAgeGroupBreaks params of
        None \<Rightarrow> (SD0, Inl AssertionError)
      | Some cb \<Rightarrow>
          andThen (store SD0 (ageGroupIndices SD0 t cb)
                     (\<lambda>v. SD0\<lparr>contactAgeGroupIndices := v\<rparr>)) (\<lambda>SD.
          case treatmentAgeGroupBreaks params of
            None \<Rightarrow> (SD, Inl AssertionError)
          | Some tb \<Rightarrow>
             (case VaccTreatmentAgeGroupBreaks params of
                None \<Rightarrow> (SD, Inl AssertionError)
              | Some vb \<Rightarrow>
                  andThen (store SD (ageGroupIndices SD t tb)
                             (\<lambda>v. SD\<lparr>treatmentAgeGroupIndices := v\<rparr>)) (\<lambda>SD.
                  store SD (ageGroupIndices SD t vb)
                    (\<lambda>v. SD\<lparr>VaccTreatmentAgeGroupIndices := Some v\<rparr>)))))"

text \<open>\<open>theDead = np.where(SD.demography.deathDate < t)[0]\<close>.\<close>

definition theDeadAt :: "SDEquilibrium \<Rightarrow> real \<Rightarrow> nat list" where
  "theDeadAt SD t =
     filter (\<lambda>i. deathDate (demography SD) ! i < t) [0..<length (deathDate (demography SD))]"

definition doDeath ::
  "(nat \<Rightarrow> real) \<Rightarrow> (nat \<Rightarrow> real) \<Rightarrow> (nat \<Rightarrow> real) \<Rightarrow> (nat \<Rightarrow> real)
     \<Rightarrow> Parameters \<Rightarrow> SDEquilibrium \<Rightarrow> real \<Rightarrow> unit run" where
  "doDeath gammaDraw getLifeSpans uAdherence uComply params SD t =
     (let theDead = theDeadAt SD t in
      andThen (if length theDead \<noteq> 0
               then rebirth gammaDraw getLifeSpans uAdherence uComply params theDead t SD
               else (SD, Inr ()))
        (updateAgeGroups params t))"

subsection \<open>FreeLivingUpdater: doFreeLive\<close>

text \<open>Arithmetic on floats that may be non-finite: a non-finite operand gives a
  non-finite result.\<close>

definition np_lift2 :: "(real \<Rightarrow> real \<Rightarrow> real) \<Rightarrow> real option \<Rightarrow> real option \<Rightarrow> real option" where
  "np_lift2 f x y =
     (case x of None \<Rightarrow> None
      | Some a \<Rightarrow> (case y of None \<Rightarrow> None | Some b \<Rightarrow> Some (f a b)))"

definition productivefemaleworms :: "Parameters \<Rightarrow> SDEquilibrium \<Rightarrow> error + int list" where
  "productivefemaleworms params SD =
     (if reproFuncName params = ''epgFertility'' \<and> SR params
        then np_binop (\<lambda>tot fem. if tot = fem then 0 else fem)
               (total (worms SD)) (female (worms SD))
      else if reproFuncName params = ''epgFertility'' \<and> \<not> SR params
        then Inr (female (worms SD))
      else if reproFuncName params = ''epgMonog''
        then ebind (np_binop (-) (total (worms SD)) (female (worms SD)))
               (\<lambda>males. np_binop min males (female (worms SD)))
      else Inl (ValueError ''Unsupported reproFuncName''))"

definition eggsProdRate :: "Parameters \<Rightarrow> SDEquilibrium \<Rightarrow> error + real option" where
  "eggsProdRate params SD =
     ebind (productivefemaleworms params SD) (\<lambda>productive.
     ebind (np_binop (*) (map (\<lambda>p. lambda_egg params * real_of_int p) productive)
              (map (\<lambda>w. exp (- real_of_int w * gamma params)) (total (worms SD)))) (\<lambda>e1.
     ebind (np_take (v2 params) (sv SD)) (\<lambda>fecundity.
     ebind (np_binop (*) e1 fecundity) (\<lambda>eggOutputPerHost.
     ebind (np_take (rho params) (contactAgeGroupIndices SD)) (\<lambda>contact.
     ebind (np_binop (*) eggOutputPerHost contact) (\<lambda>weighted.
       Inr (np_divide (Some (2 * psi params * sum_list weighted))
              (Some (real (N params))))))))))"

definition doFreeLive :: "Parameters \<Rightarrow> SDEquilibrium \<Rightarrow> real \<Rightarrow> unit run" where
  "doFreeLive params SD dt =
     store SD (eggsProdRate params SD) (\<lambda>rate.
       let expFactor = exp (- LDecayRate params * dt)
       in SD\<lparr>freeLiving :=
            np_lift2 (+) (np_lift2 (*) (freeLiving SD) (Some expFactor))
              (np_divide (np_lift2 (*) rate (Some (1 - expFactor)))
                 (Some (LDecayRate params)))\<rparr>)"

subsection \<open>EventSampler: doEvent\<close>

text \<open>\<open>a[i] = f(a[i])\<close> for a non-negative index \<open>i\<close>.\<close>

definition np_update :: "'a list \<Rightarrow> nat \<Rightarrow> ('a \<Rightarrow> 'a) \<Rightarrow> error + 'a list" where
  "np_update a i f = (if i < length a then Inr (a[i := f (a ! i)]) else Inl IndexError)"

text \<open>\<open>np.argmax(u * np.sum(rates) < np.cumsum(rates))\<close>: the inverse-CDF draw.\<close>

definition select_event :: "real \<Rightarrow> real list \<Rightarrow> error + nat" where
  "select_event u rates = np_argmax (map (\<lambda>c. u * sum_list rates < c) (np_cumsum rates))"

text \<open>\<open>u < f / t\<close> for integers \<open>f\<close> and \<open>t\<close> of numpy arrays: the quotient by 0 is
  \<open>nan\<close> (comparison false) when \<open>f = 0\<close>, \<open>inf\<close> when \<open>f > 0\<close> and \<open>-inf\<close> when \<open>f < 0\<close>.\<close>

definition below_ratio :: "real \<Rightarrow> int \<Rightarrow> int \<Rightarrow> bool" where
  "below_ratio u f t = (if t = 0 then 0 < f else u < real_of_int f / real_of_int t)"

text \<open>The body of \<open>if event == len(rates) - 1\<close>. The total is decremented before the
  female fraction is computed.\<close>

definition wormDeath :: "real \<Rightarrow> real \<Rightarrow> Parameters \<Rightarrow> SDEquilibrium \<Rightarrow> unit run" where
  "wormDeath u_death u_sex params SD0 =
     (case ebind (np_take (v1 params) (sv SD0)) (\<lambda>mult.
           ebind (np_binop (\<lambda>w m. real_of_int w * m) (total (worms SD0)) mult)
             (select_event u_death))
      of Inl e \<Rightarrow> (SD0, Inl e)
       | Inr deathIndex \<Rightarrow>
          andThen (store SD0 (np_update (total (worms SD0)) deathIndex (\<lambda>w. w - 1))
                     (\<lambda>v. SD0\<lparr>worms := (worms SD0)\<lparr>total := v\<rparr>\<rparr>)) (\<lambda>SD.
          case ebind (np_get (female (worms SD)) (int deathIndex)) (\<lambda>f.
               ebind (np_get (total (worms SD)) (int deathIndex)) (\<lambda>w.
                 Inr (below_ratio u_sex f w)))
          of Inl e \<Rightarrow> (SD, Inl e)
           | Inr lostFemale \<Rightarrow>
              if lostFemale
              then store SD (np_update (female (worms SD)) deathIndex (\<lambda>w. w - 1))
                     (\<lambda>v. SD\<lparr>worms := (worms SD)\<lparr>female := v\<rparr>\<rparr>)
              else (SD, Inr ())))"

text \<open>The body of \<open>if event <= params.N\<close>.\<close>

definition newWorm :: "real \<Rightarrow> real \<Rightarrow> Parameters \<Rightarrow> nat \<Rightarrow> SDEquilibrium \<Rightarrow> unit run" where
  "newWorm u_gate u_female params event SD0 =
     (case ebind (np_get (sv SD0) (int event)) (np_get (v3 params))
      of Inl e \<Rightarrow> (SD0, Inl e)
       | Inr p \<Rightarrow>
          if u_gate < p
          then andThen (store SD0 (np_update (total (worms SD0)) event (\<lambda>w. w + 1))
                          (\<lambda>v. SD0\<lparr>worms := (worms SD0)\<lparr>total := v\<rparr>\<rparr>)) (\<lambda>SD.
               if u_female < 0.5
               then store SD (np_update (female (worms SD)) event (\<lambda>w. w + 1))
                      (\<lambda>v. SD\<lparr>worms := (worms SD)\<lparr>female := v\<rparr>\<rparr>)
               else (SD, Inr ()))
          else (SD0, Inr ()))"

text \<open>The five variates are the ones the five calls of \<open>np.random.uniform\<close> draw, each
  used by the one call that can reach it.\<close>

definition doEvent ::
  "real \<Rightarrow> real \<Rightarrow> real \<Rightarrow> real \<Rightarrow> real \<Rightarrow> real list \<Rightarrow> Parameters \<Rightarrow> SDEquilibrium
     \<Rightarrow> unit run" where
  "doEvent u_event u_death u_sex u_gate u_female rates params SD0 =
     (case select_event u_event rates of
        Inl e \<Rightarrow> (SD0, Inl e)
      | Inr event \<Rightarrow>
          andThen (if int event = int (length rates) - 1
                   then wormDeath u_death u_sex params SD0
                   else (SD0, Inr ())) (\<lambda>SD.
          if event \<le> N params then newWorm u_gate u_female params event SD
          else if event \<le> 2 * N params
          then store SD (np_update (sv SD) (event - N params) (\<lambda>s. 0))
                 (\<lambda>v. SD\<lparr>sv := v\<rparr>)
          else (SD, Inr ())))"

text \<open>The three atomic changes of the single-draw sampler, as relations between the
  state before and the state after: one worm more for host \<open>h\<close> (female or not), the
  vaccination status of host \<open>h\<close> reset, one worm less for host \<open>h\<close> (female or not).\<close>

definition wormsChanged :: "SDEquilibrium \<Rightarrow> nat \<Rightarrow> int \<Rightarrow> int \<Rightarrow> SDEquilibrium" where
  "wormsChanged SD h dt df =
     SD\<lparr>worms := \<lparr>total = (total (worms SD))[h := total (worms SD) ! h + dt],
                   female = (female (worms SD))[h := female (worms SD) ! h + df]\<rparr>\<rparr>"

definition acquisitionOf :: "SDEquilibrium \<Rightarrow> SDEquilibrium \<Rightarrow> nat \<Rightarrow> bool" where
  "acquisitionOf SD SD' h =
     (h < length (total (worms SD)) \<and>
      (SD' = wormsChanged SD h 1 0 \<or> SD' = wormsChanged SD h 1 1))"

definition deathOf :: "SDEquilibrium \<Rightarrow> SDEquilibrium \<Rightarrow> nat \<Rightarrow> bool" where
  "deathOf SD SD' h =
     (h < length (total (worms SD)) \<and>
      (SD' = wormsChanged SD h (- 1) 0 \<or> SD' = wormsChanged SD h (- 1) (- 1)))"

definition resetOf :: "SDEquilibrium \<Rightarrow> SDEquilibrium \<Rightarrow> nat \<Rightarrow> bool" where
  "resetOf SD SD' h = (h < length (sv SD) \<and> SD' = SD\<lparr>sv := (sv SD)[h := 0]\<rparr>)"

text \<open>One host with 10 worms, 4 of them female, not vaccinated; and the two-host
  population with both hosts vaccinated.\<close>

definition SD_one_host :: SDEquilibrium where
  "SD_one_host =
     \<lparr>si = [1], sv = [0], worms = \<lparr>total = [10], female = [4]\<rparr>,
      freeLiving = Some 10, demography = \<lparr>birthDate = [0], deathDate = [50]\<rparr>,
      contactAgeGroupIndices = [0], treatmentAgeGroupIndices = [0],
      adherenceFactors = [1 / 2], compliers = [True],
      attendanceRecord = [], ageAtChemo = [], adherenceFactorAtChemo = [],
      vaccCount = 0, numSurvey = 0, VaccTreatmentAgeGroupIndices = Some [1],
      nChemo1 = Some 0, nChemo2 = Some 0, numSurveyTwo = Some 0\<rparr>"

definition params_one_host :: Parameters where
  "params_one_host = params_example\<lparr>N := 1\<rparr>"

definition SD_vaccinated :: SDEquilibrium where
  "SD_vaccinated = SD_example\<lparr>sv := [1, 1]\<rparr>"

subsection \<open>EventSampler: doEvent2\<close>

text \<open>\<open>np.place(arr, mask, vals)\<close>: the \<open>k\<close>-th \<open>True\<close> position of the mask receives
  \<open>vals[k]\<close>, the values repeated when there are too few; no value for a position to
  fill raises.\<close>

fun place_from :: "nat \<Rightarrow> 'a list \<Rightarrow> bool list \<Rightarrow> 'a list \<Rightarrow> 'a list" where
  "place_from k (x # xs) (m # ms) vals =
     (if m then (vals ! (k mod length vals)) # place_from (Suc k) xs ms vals
      else x # place_from k xs ms vals)"
| "place_from k xs ms vals = xs"

definition np_place :: "'a list \<Rightarrow> bool list \<Rightarrow> 'a list \<Rightarrow> error + 'a list" where
  "np_place arr msk vals =
     (if vals = [] \<and> 0 < count_true msk
      then Inl (ValueError ''Cannot insert from an empty array!'')
      else Inr (place_from 0 arr msk vals))"

text \<open>\<open>np.put(a, ind, v)\<close> for non-negative indices, as the pairs of an index and its
  value: the writes are made in order, so of two writes to one index the later stays,
  and an index out of range raises after the earlier writes.\<close>

fun np_put :: "'a list \<Rightarrow> (nat \<times> 'a) list \<Rightarrow> 'a list \<times> (error + unit)" where
  "np_put a [] = (a, Inr ())"
| "np_put a (iv # ivs) =
     (if fst iv < length a then np_put (a[fst iv := snd iv]) ivs else (a, Inl IndexError))"

text \<open>\<open>np.where(b, x, 0)\<close> for a boolean array.\<close>

definition np_where :: "bool list \<Rightarrow> int \<Rightarrow> int list" where
  "np_where bs x = map (\<lambda>b. if b then x else 0) bs"

text \<open>\<open>np.argmax(cumsum_rates > rand_array[:, None], axis=1)\<close>.\<close>

definition events_of :: "real list \<Rightarrow> real list \<Rightarrow> error + nat list" where
  "events_of cumsum_rates rand_array =
     (if cumsum_rates = []
      then Inl (ValueError ''attempt to get argmax of an empty sequence'')
      else Inr (map (\<lambda>r. let row = map (\<lambda>c. c > r) cumsum_rates
                           in if first_true row < length row then first_true row else 0)
                  rand_array))"

text \<open>The part of \<open>doEvent2\<close> before its writes: the hosts of the vaccine-waning
  events, the host of every draw, and the change of the total and of the female worm
  count every draw asks for. \<open>us\<close>, \<open>ug\<close>, \<open>ud\<close> and \<open>uf\<close> give the variates of the four
  calls of \<open>np.random.uniform\<close>, in the order of the calls. Integer division and
  remainder by \<open>n_pop = 0\<close> give 0 in numpy.\<close>

definition eventDeltas ::
  "(nat \<Rightarrow> real) \<Rightarrow> (nat \<Rightarrow> real) \<Rightarrow> (nat \<Rightarrow> real) \<Rightarrow> (nat \<Rightarrow> real) \<Rightarrow> real \<Rightarrow> real list
     \<Rightarrow> Parameters \<Rightarrow> SDEquilibrium \<Rightarrow> nat
     \<Rightarrow> error + (nat list \<times> nat list \<times> int list \<times> int list)" where
  "eventDeltas us ug ud uf sum_rates cumsum_rates params SD multiplier =
     (let n_pop = N params;
          param_v3 = v3 params;
          rand_array = map (\<lambda>i. us i * sum_rates) [0..<multiplier]
      in ebind (events_of cumsum_rates rand_array) (\<lambda>events_array.
         let event_types_array =
               map (\<lambda>e. (if n_pop = 0 then 0 else e div n_pop) + 1) events_array;
             host_index_array = map (\<lambda>e. if n_pop = 0 then 0 else e mod n_pop) events_array;
             event1_bools = map (\<lambda>ty. ty = 1) event_types_array;
             event2_bools = map (\<lambda>ty. ty = 2) event_types_array;
             event3_bools = map (\<lambda>ty. ty = 3) event_types_array;
             event1_hosts = np_extract event1_bools host_index_array;
             event2_hosts = np_extract event2_bools host_index_array;
             event3_hosts = np_extract event3_bools host_index_array
         in ebind (np_take (sv SD) (map int event1_hosts)) (\<lambda>svs.
            ebind (np_take param_v3 svs) (\<lambda>param_v3s.
            let event1_total_true_bools =
                  map2 (<) (map ug [0..<length event1_hosts]) param_v3s
            in ebind (np_place (replicate (length event1_bools) False) event1_bools
                        event1_total_true_bools) (\<lambda>event1_total_bools.
            let total_array =
                  map2 (+) (np_where event1_total_bools 1) (np_where event3_bools (- 1))
            in ebind (np_take (female (worms SD)) (map int event3_hosts)) (\<lambda>fs.
               ebind (np_take (total (worms SD)) (map int event3_hosts)) (\<lambda>ts.
            let event3_total_true_bools =
                  map2 (\<lambda>u ft. below_ratio u (fst ft) (snd ft))
                    (map ud [0..<length event3_hosts]) (zip fs ts)
            in ebind (np_place (replicate (length event1_bools) False) event3_bools
                        event3_total_true_bools) (\<lambda>event3_total_bools.
            let females_array =
                  map2 (+)
                    (np_where (map2 (\<and>) event1_total_bools
                                 (map (\<lambda>i. uf i < 0.5) [0..<multiplier])) 1)
                    (np_where event3_total_bools (- 1))
            in Inr (event2_hosts, host_index_array, total_array, females_array)))))))))"

definition doEvent2 ::
  "(nat \<Rightarrow> real) \<Rightarrow> (nat \<Rightarrow> real) \<Rightarrow> (nat \<Rightarrow> real) \<Rightarrow> (nat \<Rightarrow> real) \<Rightarrow> real \<Rightarrow> real list
     \<Rightarrow> Parameters \<Rightarrow> SDEquilibrium \<Rightarrow> nat \<Rightarrow> unit run" where
  "doEvent2 us ug ud uf sum_rates cumsum_rates params SD0 multiplier =
     (case eventDeltas us ug ud uf sum_rates cumsum_rates params SD0 multiplier of
        Inl e \<Rightarrow> (SD0, Inl e)
      | Inr (event2_hosts, host_index_array, total_array, females_array) \<Rightarrow>
          andThen (let w = np_put (sv SD0) (map (\<lambda>h. (h, 0)) event2_hosts)
                   in (SD0\<lparr>sv := fst w\<rparr>, snd w)) (\<lambda>SD.
          case np_take (total (worms SD)) (map int host_index_array) of
            Inl e \<Rightarrow> (SD, Inl e)
          | Inr old_total \<Rightarrow>
          andThen (let w = np_put (total (worms SD))
                             (zip host_index_array (map2 (+) old_total total_array))
                   in (SD\<lparr>worms := (worms SD)\<lparr>total := fst w\<rparr>\<rparr>, snd w)) (\<lambda>SD.
          case np_take (female (worms SD)) (map int host_index_array) of
            Inl e \<Rightarrow> (SD, Inl e)
          | Inr old_female \<Rightarrow>
             (let w = np_put (female (worms SD))
                        (zip host_index_array (map2 (+) old_female females_array))
              in (SD\<lparr>worms := (worms SD)\<lparr>female := fst w\<rparr>\<rparr>, snd w)))))"

subsection \<open>InterventionEngine: doChemoAgeRange\<close>

text \<open>\<open>np.random.binomial(size=len(ns), n=ns, p=p)\<close>: \<open>draw j\<close> is the variate drawn for
  position \<open>j\<close>; a probability outside \<open>[0, 1]\<close> or a negative \<open>n\<close> raises.\<close>

definition np_binomial :: "(nat \<Rightarrow> int) \<Rightarrow> int list \<Rightarrow> real \<Rightarrow> error + int list" where
  "np_binomial draw ns p =
     (if p < 0 \<or> 1 < p then Inl (ValueError ''p < 0, p > 1 or p is NaN'')
      else if list_ex (\<lambda>n. n < 0) ns then Inl (ValueError ''n < 0'')
      else Inr (map draw [0..<length ns]))"

text \<open>The share of a drug at time \<open>t\<close>: the split at the first index \<open>i\<close> with
  \<open>years[i] == t\<close>, or 0 when \<open>t\<close> is not among the years.\<close>

fun first_index :: "real list \<Rightarrow> real \<Rightarrow> nat" where
  "first_index [] t = 0"
| "first_index (y # ys) t = (if y = t then 0 else Suc (first_index ys t))"

definition drugShare :: "real list \<Rightarrow> real list \<Rightarrow> real \<Rightarrow> error + real" where
  "drugShare years split t =
     (if t \<in> set years then np_get split (int (first_index years t)) else Inr 0)"

text \<open>The statements of one drug: \<open>k\<close> holds the positions, within the array \<open>drug\<close> of
  the treated, that take the drug, and the four writes index the hosts by \<open>k\<close>. The
  counter is \<open>nChemo1\<close> for drug 1 and \<open>nChemo2\<close> for drug 2.\<close>

definition giveDrug ::
  "bool \<Rightarrow> real \<Rightarrow> nat list \<Rightarrow> (nat \<Rightarrow> int) \<Rightarrow> (nat \<Rightarrow> int) \<Rightarrow> SDEquilibrium \<Rightarrow> unit run" where
  "giveDrug first dEff k fDie mDie SD0 =
     (case
        ebind (np_take (female (worms SD0)) (map int k)) (\<lambda>fk.
        ebind (np_binomial fDie fk dEff) (\<lambda>femaleToDie.
        ebind (np_take (total (worms SD0)) (map int k)) (\<lambda>tk.
        ebind (np_binomial mDie (map2 (-) tk fk) dEff) (\<lambda>maleToDie.
          Inr (femaleToDie, maleToDie)))))
      of Inl e \<Rightarrow> (SD0, Inl e)
       | Inr die \<Rightarrow>
          andThen (store SD0
                     (ebind (np_take (female (worms SD0)) (map int k)) (\<lambda>fk.
                        np_assign (female (worms SD0)) k (map2 (-) fk (fst die))))
                     (\<lambda>v. SD0\<lparr>worms := (worms SD0)\<lparr>female := v\<rparr>\<rparr>)) (\<lambda>SD.
          andThen (store SD
                     (ebind (np_take (total (worms SD)) (map int k)) (\<lambda>tk.
                        np_assign (total (worms SD)) k
                          (map2 (-) tk (map2 (+) (snd die) (fst die)))))
                     (\<lambda>v. SD\<lparr>worms := (worms SD)\<lparr>total := v\<rparr>\<rparr>)) (\<lambda>SD.
          let SD = SD\<lparr>attendanceRecord := attendanceRecord SD @ [Indices k]\<rparr>
          in if first
             then (case nChemo1 SD of
                     None \<Rightarrow> (SD, Inl AssertionError)
                   | Some c \<Rightarrow> (SD\<lparr>nChemo1 := Some (c + int (length k))\<rparr>, Inr ()))
             else (case nChemo2 SD of
                     None \<Rightarrow> (SD, Inl AssertionError)
                   | Some c \<Rightarrow> (SD\<lparr>nChemo2 := Some (c + int (length k))\<rparr>, Inr ())))))"

text \<open>\<open>toTreatNow\<close>: the hosts that attend under the flat coverage, comply and have an
  age in \<open>[minAge, maxAge]\<close>. \<open>u i\<close> is the attendance variate of host \<open>i\<close>.\<close>

definition toTreatNowOf ::
  "(nat \<Rightarrow> real) \<Rightarrow> Parameters \<Rightarrow> SDEquilibrium \<Rightarrow> real \<Rightarrow> real \<Rightarrow> real \<Rightarrow> real
     \<Rightarrow> error + bool list" where
  "toTreatNowOf u params SD t minAge maxAge coverage =
     (let attendance = map (\<lambda>i. u i < coverage) [0..<N params];
          ages = map (\<lambda>b. t - b) (birthDate (demography SD));
          correctAges = map (\<lambda>a. a \<le> maxAge \<and> a \<ge> minAge) ages
      in ebind (np_binop (\<and>) attendance (compliers SD)) (\<lambda>toTreatNow.
         np_binop (\<and>) toTreatNow correctAges))"

text \<open>\<open>perm\<close> is the permutation of \<open>range(len(drug))\<close> whose first elements
  \<open>random.sample\<close> returns; \<open>fDie1\<close>, \<open>mDie1\<close>, \<open>fDie2\<close> and \<open>mDie2\<close> give the binomial
  variates of the four calls of the binomial sampler.\<close>

definition doChemoAgeRange ::
  "(nat \<Rightarrow> real) \<Rightarrow> nat list \<Rightarrow> (nat \<Rightarrow> int) \<Rightarrow> (nat \<Rightarrow> int) \<Rightarrow> (nat \<Rightarrow> int) \<Rightarrow> (nat \<Rightarrow> int)
     \<Rightarrow> Parameters \<Rightarrow> SDEquilibrium \<Rightarrow> real \<Rightarrow> real \<Rightarrow> real \<Rightarrow> real \<Rightarrow> unit run" where
  "doChemoAgeRange u perm fDie1 mDie1 fDie2 mDie2 params SD0 t minAge maxAge coverage =
     (case toTreatNowOf u params SD0 t minAge maxAge coverage of
        Inl e \<Rightarrow> (SD0, Inl e)
      | Inr toTreatNow \<Rightarrow>
     (case (drug1Years params, drug2Years params, drug1Split params, drug2Split params) of
        (Some years1, Some years2, Some split1, Some split2) \<Rightarrow>
          (case ebind (drugShare years1 split1 t) (\<lambda>d1Share.
                ebind (drugShare years2 split2 t) (\<lambda>d2Share.
                let n = count_true toTreatNow
                in if d2Share > 0
                   then (let wanted = nat \<lfloor>real n * d2Share\<rfloor>
                         in if n < wanted
                            then Inl (ValueError
                                   ''Sample larger than population or is negative'')
                            else Inr (d1Share, d2Share,
                                   map (\<lambda>j. if j \<in> set (take wanted perm) then 2 else 1)
                                     [0..<n]))
                   else Inr (d1Share, d2Share, replicate n (1 :: nat))))
           of Inl e \<Rightarrow> (SD0, Inl e)
            | Inr (d1Share, d2Share, drug) \<Rightarrow>
               andThen (if d1Share > 0
                        then giveDrug True (DrugEfficacy1 params)
                               (filter (\<lambda>j. drug ! j = 1) [0..<length drug]) fDie1 mDie1 SD0
                        else (SD0, Inr ())) (\<lambda>SD.
               andThen (if d2Share > 0
                        then giveDrug False (DrugEfficacy2 params)
                               (filter (\<lambda>j. drug ! j = 2) [0..<length drug]) fDie2 mDie2 SD
                        else (SD, Inr ())) (\<lambda>SD.
               (SD\<lparr>ageAtChemo :=
                     ageAtChemo SD @ [map (\<lambda>b. t - b) (birthDate (demography SD))],
                   adherenceFactorAtChemo :=
                     adherenceFactorAtChemo SD @ [adherenceFactors SD]\<rparr>, Inr ()))))
      | _ \<Rightarrow> (SD0, Inl AssertionError)))"

section \<open>Theorems\<close>

lemma ebind_Inr_iff: "ebind m f = Inr y \<longleftrightarrow> (\<exists>x. m = Inr x \<and> f x = Inr y)"
  by (cases m) (simp_all add: ebind_def)

lemmas np_defs = ebind_def np_index_def np_get_def np_binop_def count_true_def
  np_extract_def np_mask_def np_mask_assign_def np_argmax_def np_cumsum_def np_divide_def
  np_choice_def andThen_def store_def

subsection \<open>SurveyEngine\<close>

lemma addEggCounts_error:
  "addEggCounts reading c n e = Inl err \<Longrightarrow>
     err = ValueError ''operands could not be broadcast together''"
  by (induction n arbitrary: c e) (auto simp: ebind_def np_binop_def split: sum.splits if_splits)

lemma np_choice_error:
  "np_choice perm a sz = Inl err \<Longrightarrow> err \<noteq> ValueError ''nSamples < 1''"
  by (auto simp: np_choice_def split: if_splits)

lemma np_mask_error: "np_mask a msk = Inl err \<Longrightarrow> err = IndexError"
  by (auto simp: np_mask_def split: if_splits)

lemma conductSurvey_example:
  "conductSurvey eggs_example [0, 1] SD_example params_example 10 2 1
     = (SD_example\<lparr>numSurvey := 1\<rparr>, Inr (Some (1 / 2)))"
  by (simp add: conductSurvey_def Let_def np_defs prevalence_def SD_example_def
      params_example_def eggs_example_def)

lemma conductSurveyTwo_example:
  "conductSurveyTwo eggs_example [0, 1] SD_example params_example 10 2 1
     = (SD_example\<lparr>numSurveyTwo := Some 1\<rparr>, Inr (Some 1))"
  by (simp add: conductSurveyTwo_def Let_def np_defs prevalence_def SD_example_def
      params_example_def eggs_example_def)

text \<open>
  Claim C9. A survey called with \<open>nSamples < 1\<close> raises \<open>ValueError('nSamples < 1')\<close> and
  ends in the state it was called in, for \<open>conductSurvey\<close> and for \<open>conductSurveyTwo\<close>;
  called with \<open>nSamples \<ge> 1\<close>, neither raises that error.
\<close>

theorem survey_nSamples_check:
  "(nSamples < 1 \<longrightarrow>
      conductSurvey g perm SD params t sampleSize nSamples
        = (SD, Inl (ValueError ''nSamples < 1'')) \<and>
      conductSurveyTwo g perm SD params t sampleSize nSamples
        = (SD, Inl (ValueError ''nSamples < 1''))) \<and>
   (1 \<le> nSamples \<longrightarrow>
      snd (conductSurvey g perm SD params t sampleSize nSamples)
        \<noteq> Inl (ValueError ''nSamples < 1'') \<and>
      snd (conductSurveyTwo g perm SD params t sampleSize nSamples)
        \<noteq> Inl (ValueError ''nSamples < 1''))"
  by (auto simp: conductSurvey_def conductSurveyTwo_def Let_def ebind_def
      split: sum.splits option.splits
      dest!: addEggCounts_error np_choice_error np_mask_error)

theorem survey_nSamples_check_witness:
  "conductSurvey eggs_example [0, 1] SD_example params_example 10 2 0
     = (SD_example, Inl (ValueError ''nSamples < 1'')) \<and>
   conductSurveyTwo eggs_example [0, 1] SD_example params_example 10 2 0
     = (SD_example, Inl (ValueError ''nSamples < 1'')) \<and>
   snd (conductSurvey eggs_example [0, 1] SD_example params_example 10 2 1)
     \<noteq> Inl (ValueError ''nSamples < 1'') \<and>
   snd (conductSurveyTwo eggs_example [0, 1] SD_example params_example 10 2 1)
     \<noteq> Inl (ValueError ''nSamples < 1'')"
  using survey_nSamples_check [of 0 eggs_example "[0, 1]" SD_example params_example 10 2]
    survey_nSamples_check [of 1 eggs_example "[0, 1]" SD_example params_example 10 2]
  by simp

text \<open>
  Claim C10. A call of \<open>conductSurvey\<close> that returns leaves the state as it was but for
  \<open>numSurvey\<close>, which is one more; a call of \<open>conductSurveyTwo\<close> that returns leaves the
  state as it was but for \<open>numSurveyTwo\<close>, which is one more. Worm counts, vaccination
  status, demography, \<open>freeLiving\<close>, the other counters and the logs are fields of the
  state and so are unchanged.
\<close>

theorem survey_frame:
  "(conductSurvey g perm SD params t sampleSize nSamples = (SD', Inr p) \<longrightarrow>
      SD' = SD\<lparr>numSurvey := numSurvey SD + 1\<rparr>) \<and>
   (conductSurveyTwo g perm SD params t sampleSize nSamples = (SD', Inr p) \<longrightarrow>
      (\<exists>n. numSurveyTwo SD = Some n \<and> SD' = SD\<lparr>numSurveyTwo := Some (n + 1)\<rparr>))"
  by (auto simp: conductSurvey_def conductSurveyTwo_def Let_def
      split: sum.splits option.splits if_splits)

theorem survey_frame_witness:
  "conductSurvey eggs_example [0, 1] SD_example params_example 10 2 1
     = (SD_example\<lparr>numSurvey := numSurvey SD_example + 1\<rparr>, Inr (Some (1 / 2))) \<and>
   conductSurveyTwo eggs_example [0, 1] SD_example params_example 10 2 1
     = (SD_example\<lparr>numSurveyTwo := Some 1\<rparr>, Inr (Some 1)) \<and>
   numSurveyTwo SD_example = Some 0"
  using survey_frame [of eggs_example "[0, 1]" SD_example params_example 10 2 1
      "SD_example\<lparr>numSurvey := 1\<rparr>" "Some (1 / 2)"]
    survey_frame [of eggs_example "[0, 1]" SD_example params_example 10 2 1
      "SD_example\<lparr>numSurveyTwo := Some 1\<rparr>" "Some 1"]
    conductSurvey_example conductSurveyTwo_example
  by (simp add: SD_example_def)

text \<open>
  Claim C5. \<open>conductSurveyTwo\<close> with \<open>nSamples = 1\<close> and \<open>sampleSize = N = 2\<close>, on a
  sampler whose first reading is positive for host 0 only and whose second reading is
  positive for host 1 only: the code adds both readings, divides by 1 and returns
  prevalence 1, while the fraction of hosts with a reading above 0.9 is 1/2 in the first
  reading and 1/2 in the second.
\<close>

theorem conductSurveyTwo_adds_one_reading_too_many:
  "snd (conductSurveyTwo eggs_example [0, 1] SD_example params_example 10 2 1)
     = Inr (Some 1) \<and>
   prevalence (eggs_example 0 (total (worms SD_example)) (female (worms SD_example))
       params_example (Unfertilized params_example)) 2 = Some (1 / 2) \<and>
   prevalence (eggs_example 1 (total (worms SD_example)) (female (worms SD_example))
       params_example (Unfertilized params_example)) 2 = Some (1 / 2)"
  by (simp add: conductSurveyTwo_def Let_def np_defs prevalence_def SD_example_def
      params_example_def eggs_example_def)

subsection \<open>InterventionEngine: doVaccine\<close>









subsection \<open>DemographicUpdater\<close>

lemma store_Inr [simp]: "store SD m upd = (SD', Inr x) \<longleftrightarrow> (\<exists>v. m = Inr v \<and> SD' = upd v)"
  by (cases m) (auto simp: store_def)

lemma andThen_Inr [simp]:
  "andThen r f = (SD', Inr x) \<longleftrightarrow> (\<exists>SD1. r = (SD1, Inr ()) \<and> f SD1 = (SD', Inr x))"
  by (cases r) (auto simp: andThen_def split: sum.splits)

lemma length_assign_all [simp]: "length (assign_all a ind vals) = length a"
  by (induction a ind vals rule: assign_all.induct) auto

lemma assign_all_other: "i \<notin> set ind \<Longrightarrow> assign_all a ind vals ! i = a ! i"
  by (induction a ind vals rule: assign_all.induct) auto

lemma assign_all_written:
  "i \<in> set ind \<Longrightarrow> length vals = length ind \<Longrightarrow> i < length a \<Longrightarrow> \<forall>v\<in>set vals. P v
     \<Longrightarrow> P (assign_all a ind vals ! i)"
proof (induction a ind vals rule: assign_all.induct)
  case (1 a j ind v vals)
  show ?case
  proof (cases "i \<in> set ind")
    case True
    with 1 show ?thesis by simp
  next
    case False
    with 1 have "i = j" by simp
    with False 1 show ?thesis by (simp add: assign_all_other)
  qed
qed auto

lemma np_assign_Inr:
  "np_assign a ind vals = Inr a' \<longleftrightarrow> (\<forall>i\<in>set ind. i < length a) \<and> a' = assign_all a ind vals"
  by (auto simp: np_assign_def list_all_iff)


lemma rebirth_Inr:
  assumes "rebirth g l a c params D t SD = (SD', Inr ())"
  shows "(\<forall>i\<in>set D. i < length (sv SD) \<and> i < length (total (worms SD)) \<and>
            i < length (female (worms SD)) \<and> i < length (birthDate (demography SD)) \<and>
            i < length (deathDate (demography SD)))"
    and "si SD' = assign_all (si SD) D (map g [0..<length D])"
    and "sv SD' = assign_all (sv SD) D (replicate (length D) 0)"
    and "birthDate (demography SD')
           = assign_all (birthDate (demography SD)) D (replicate (length D) (t - 0.001))"
    and "deathDate (demography SD')
           = assign_all (deathDate (demography SD)) D (map (\<lambda>j. t + l j) [0..<length D])"
    and "total (worms SD') = assign_all (total (worms SD)) D (replicate (length D) 0)"
    and "female (worms SD') = assign_all (female (worms SD)) D (replicate (length D) 0)"
    and "compliers SD' = assign_all (compliers SD) D
           (map (\<lambda>j. c j > propNeverCompliers params) [0..<length D])"
  using assms by (auto simp: rebirth_def Let_def np_assign_Inr)

lemma ageGroupIndices_Inr:
  "ageGroupIndices SD t br = Inr v \<Longrightarrow>
     v = map (\<lambda>b. int (digitize1 br (t - b)) - 1) (birthDate (demography SD))"
  by (auto simp: ageGroupIndices_def np_digitize_def ebind_Inr_iff comp_def split: if_splits)

lemma updateAgeGroups_Inr:
  assumes "updateAgeGroups params t SD = (SD', Inr ())"
  shows "\<exists>cb tb vb. contactAgeGroupBreaks params = Some cb \<and>
      treatmentAgeGroupBreaks params = Some tb \<and>
      VaccTreatmentAgeGroupBreaks params = Some vb \<and>
      SD' = SD\<lparr>contactAgeGroupIndices :=
                  map (\<lambda>b. int (digitize1 cb (t - b)) - 1) (birthDate (demography SD)),
                treatmentAgeGroupIndices :=
                  map (\<lambda>b. int (digitize1 tb (t - b)) - 1) (birthDate (demography SD)),
                VaccTreatmentAgeGroupIndices :=
                  Some (map (\<lambda>b. int (digitize1 vb (t - b)) - 1) (birthDate (demography SD)))\<rparr>"
proof (cases "contactAgeGroupBreaks params")
  case None
  with assms show ?thesis by (simp add: updateAgeGroups_def)
next
  case cb: (Some cb)
  show ?thesis
  proof (cases "treatmentAgeGroupBreaks params")
    case None
    with assms cb show ?thesis by (simp add: updateAgeGroups_def)
  next
    case tb: (Some tb)
    show ?thesis
    proof (cases "VaccTreatmentAgeGroupBreaks params")
      case None
      with assms cb tb show ?thesis by (simp add: updateAgeGroups_def)
    next
      case vb: (Some vb)
      from assms cb tb vb obtain w1 w2 w3 where
        "ageGroupIndices SD t cb = Inr w1"
        "ageGroupIndices (SD\<lparr>contactAgeGroupIndices := w1\<rparr>) t tb = Inr w2"
        "ageGroupIndices (SD\<lparr>contactAgeGroupIndices := w1, treatmentAgeGroupIndices := w2\<rparr>)
           t vb = Inr w3"
        "SD' = SD\<lparr>contactAgeGroupIndices := w1, treatmentAgeGroupIndices := w2,
                  VaccTreatmentAgeGroupIndices := Some w3\<rparr>"
        by (auto simp: updateAgeGroups_def)
      then show ?thesis
        using cb tb vb by (auto dest!: ageGroupIndices_Inr)
    qed
  qed
qed

lemma set_theDeadAt:
  "i \<in> set (theDeadAt SD t) \<longleftrightarrow>
     i < length (deathDate (demography SD)) \<and> deathDate (demography SD) ! i < t"
  by (auto simp: theDeadAt_def)

text \<open>
  Claim C7. Let \<open>doDeath\<close> return, with every lifespan draw positive. A host \<open>i\<close> whose
  \<open>deathDate\<close> was below \<open>t\<close> has both worm counts 0, \<open>vaccineStatus\<close> 0, \<open>birthDate\<close>
  \<open>t - 0.001\<close> and a \<open>deathDate\<close> above \<open>t\<close>. A host whose \<open>deathDate\<close> was not below \<open>t\<close>
  keeps its worm counts, susceptibility, compliance, birth date and death date. The three
  arrays of age-group indices hold, for every host, \<open>np.digitize(t - birthDate, breaks) - 1\<close>
  of the host's birth date after the call (\<open>digitize1_bucket\<close> below: for increasing
  breaks, the zero-based number of the right-open interval the age lies in).
\<close>

theorem doDeath_effect:
  assumes run: "doDeath g l a c params SD t = (SD', Inr ())"
    and pos: "\<forall>j. 0 < l j"
  shows "(\<forall>i<length (deathDate (demography SD)).
      (if deathDate (demography SD) ! i < t
       then total (worms SD') ! i = 0 \<and> female (worms SD') ! i = 0 \<and> sv SD' ! i = 0 \<and>
            birthDate (demography SD') ! i = t - 0.001 \<and>
            t < deathDate (demography SD') ! i
       else total (worms SD') ! i = total (worms SD) ! i \<and>
            female (worms SD') ! i = female (worms SD) ! i \<and>
            si SD' ! i = si SD ! i \<and> compliers SD' ! i = compliers SD ! i \<and>
            birthDate (demography SD') ! i = birthDate (demography SD) ! i \<and>
            deathDate (demography SD') ! i = deathDate (demography SD) ! i)) \<and>
    (\<exists>cb tb vb. contactAgeGroupBreaks params = Some cb \<and>
       treatmentAgeGroupBreaks params = Some tb \<and>
       VaccTreatmentAgeGroupBreaks params = Some vb \<and>
       contactAgeGroupIndices SD'
         = map (\<lambda>b. int (digitize1 cb (t - b)) - 1) (birthDate (demography SD')) \<and>
       treatmentAgeGroupIndices SD'
         = map (\<lambda>b. int (digitize1 tb (t - b)) - 1) (birthDate (demography SD')) \<and>
       VaccTreatmentAgeGroupIndices SD'
         = Some (map (\<lambda>b. int (digitize1 vb (t - b)) - 1) (birthDate (demography SD'))))"
proof -
  let ?D = "theDeadAt SD t"
  from run obtain SD1 where
    r1: "(if length ?D \<noteq> 0 then rebirth g l a c params ?D t SD else (SD, Inr ()))
           = (SD1, Inr ())"
    and r2: "updateAgeGroups params t SD1 = (SD', Inr ())"
    by (auto simp: doDeath_def Let_def)
  from updateAgeGroups_Inr [OF r2] obtain cb tb vb where
    br: "contactAgeGroupBreaks params = Some cb" "treatmentAgeGroupBreaks params = Some tb"
      "VaccTreatmentAgeGroupBreaks params = Some vb"
    and SD': "SD' = SD1\<lparr>contactAgeGroupIndices :=
                  map (\<lambda>b. int (digitize1 cb (t - b)) - 1) (birthDate (demography SD1)),
                treatmentAgeGroupIndices :=
                  map (\<lambda>b. int (digitize1 tb (t - b)) - 1) (birthDate (demography SD1)),
                VaccTreatmentAgeGroupIndices :=
                  Some (map (\<lambda>b. int (digitize1 vb (t - b)) - 1) (birthDate (demography SD1)))\<rparr>"
    by blast
  have hosts: "if deathDate (demography SD) ! i < t
       then total (worms SD1) ! i = 0 \<and> female (worms SD1) ! i = 0 \<and> sv SD1 ! i = 0 \<and>
            birthDate (demography SD1) ! i = t - 0.001 \<and>
            t < deathDate (demography SD1) ! i
       else total (worms SD1) ! i = total (worms SD) ! i \<and>
            female (worms SD1) ! i = female (worms SD) ! i \<and>
            si SD1 ! i = si SD ! i \<and> compliers SD1 ! i = compliers SD ! i \<and>
            birthDate (demography SD1) ! i = birthDate (demography SD) ! i \<and>
            deathDate (demography SD1) ! i = deathDate (demography SD) ! i"
    if i: "i < length (deathDate (demography SD))" for i
  proof (cases "length ?D = 0")
    case True
    then have "i \<notin> set ?D" by simp
    with i have "\<not> deathDate (demography SD) ! i < t" by (simp add: set_theDeadAt)
    moreover from True r1 have "SD1 = SD" by simp
    ultimately show ?thesis by simp
  next
    case False
    with r1 have rb: "rebirth g l a c params ?D t SD = (SD1, Inr ())" by simp
    note eqs = rebirth_Inr(2-) [OF rb]
    show ?thesis
    proof (cases "deathDate (demography SD) ! i < t")
      case True
      with i have mem: "i \<in> set ?D" by (simp add: set_theDeadAt)
      with rebirth_Inr(1) [OF rb] have lens: "i < length (sv SD)"
        "i < length (total (worms SD))" "i < length (female (worms SD))"
        "i < length (birthDate (demography SD))" by auto
      have "total (worms SD1) ! i = 0" "female (worms SD1) ! i = 0" "sv SD1 ! i = 0"
        "birthDate (demography SD1) ! i = t - 0.001"
        unfolding eqs using mem lens
        by (intro assign_all_written [where P = "\<lambda>v. v = _"]; simp)+
      moreover have "t < deathDate (demography SD1) ! i"
        unfolding eqs using mem i pos
        by (intro assign_all_written [where P = "\<lambda>v. t < v"]) auto
      ultimately show ?thesis using True by simp
    next
      case False
      with i have "i \<notin> set ?D" by (simp add: set_theDeadAt)
      with False show ?thesis by (simp add: eqs assign_all_other)
    qed
  qed
  show ?thesis using hosts br by (simp add: SD')
qed


lemma filter_sorted_takeWhile:
  "sorted bins \<Longrightarrow> filter (\<lambda>b. b \<le> x) bins = takeWhile (\<lambda>b. b \<le> (x::real)) bins"
proof (induction bins)
  case Nil
  then show ?case by simp
next
  case (Cons b bins)
  show ?case
  proof (cases "b \<le> x")
    case True
    with Cons show ?thesis by simp
  next
    case False
    with Cons.prems have "\<forall>y\<in>set bins. \<not> y \<le> x" by fastforce
    with False show ?thesis by (simp add: filter_empty_conv)
  qed
qed

lemma digitize1_bucket:
  assumes "sorted bins"
  shows "(\<forall>j<digitize1 bins x. bins ! j \<le> x) \<and>
         (\<forall>j. digitize1 bins x \<le> j \<and> j < length bins \<longrightarrow> x < bins ! j)"
proof -
  let ?k = "length (takeWhile (\<lambda>b. b \<le> x) bins)"
  have k: "digitize1 bins x = ?k"
    using assms by (simp add: digitize1_def filter_sorted_takeWhile)
  have lo: "bins ! j \<le> x" if "j < ?k" for j
  proof -
    from that have "takeWhile (\<lambda>b. b \<le> x) bins ! j \<in> set (takeWhile (\<lambda>b. b \<le> x) bins)"
      by simp
    then have "takeWhile (\<lambda>b. b \<le> x) bins ! j \<le> x" by (auto dest: set_takeWhileD)
    with that show ?thesis by (simp add: takeWhile_nth)
  qed
  have hi: "x < bins ! j" if "?k \<le> j" "j < length bins" for j
  proof -
    from that have "?k < length bins" by simp
    then have "\<not> bins ! ?k \<le> x" by (rule nth_length_takeWhile)
    moreover from assms that have "bins ! ?k \<le> bins ! j" by (simp add: sorted_nth_mono)
    ultimately show ?thesis by simp
  qed
  show ?thesis using lo hi by (simp add: k)
qed

lemma andThen_Pair [simp]:
  "andThen (SD, Inr u) f = f SD" "andThen (SD, Inl e) f = (SD, Inl e)"
  by (simp_all add: andThen_def)

lemma store_eval [simp]:
  "store SD (Inr v) upd = (upd v, Inr ())" "store SD (Inl e) upd = (SD, Inl e)"
  by (simp_all add: store_def)

lemma ebind_eval [simp]: "ebind (Inr x) f = f x" "ebind (Inl e) f = Inl e"
  by (simp_all add: ebind_def)

lemma andThen_weak_cong: "r = r' \<Longrightarrow> andThen r f = andThen r' f"
  by simp

lemma ebind_weak_cong: "m = m' \<Longrightarrow> ebind m f = ebind m' f"
  by simp

lemmas np_eval = np_index_def np_get_def np_binop_def count_true_def
  np_extract_def np_mask_def np_mask_assign_def np_argmax_def np_cumsum_def np_divide_def
  np_choice_def

lemma doDeath_example:
  "doDeath (\<lambda>j. 2) (\<lambda>j. 30) (\<lambda>j. 1 / 4) (\<lambda>j. 1 / 3) params_example SD_example 55
     = (SD_example\<lparr>si := [2, 1],
          worms := \<lparr>total = [0, 7], female = [0, 2]\<rparr>,
          demography := \<lparr>birthDate = [54999 / 1000, 0], deathDate = [85, 60]\<rparr>,
          adherenceFactors := [1 / 4, 1 / 2], compliers := [True, True],
          VaccTreatmentAgeGroupIndices := Some [0, 0]\<rparr>, Inr ())"
  by (simp add: doDeath_def theDeadAt_def rebirth_def updateAgeGroups_def
      ageGroupIndices_def np_digitize_def digitize1_def np_assign_def
      Let_def np_eval SD_example_def params_example_def
      cong: andThen_weak_cong ebind_weak_cong)

theorem doDeath_effect_witness:
  "doDeath (\<lambda>j. 2) (\<lambda>j. 30) (\<lambda>j. 1 / 4) (\<lambda>j. 1 / 3) params_example SD_example 55
     = (SD_example\<lparr>si := [2, 1],
          worms := \<lparr>total = [0, 7], female = [0, 2]\<rparr>,
          demography := \<lparr>birthDate = [54999 / 1000, 0], deathDate = [85, 60]\<rparr>,
          adherenceFactors := [1 / 4, 1 / 2], compliers := [True, True],
          VaccTreatmentAgeGroupIndices := Some [0, 0]\<rparr>, Inr ()) \<and>
   (0 :: real) < 30 \<and>
   deathDate (demography SD_example) ! 0 < 55 \<and>
   \<not> deathDate (demography SD_example) ! 1 < 55 \<and>
   treatmentAgeGroupBreaks params_example = Some [0, 100] \<and>
   map (\<lambda>b. int (digitize1 [0, 100] (55 - b)) - 1) [54999 / 1000, 0] = [0, 0]"
proof -
  have pos: "\<forall>j. (0 :: real) < (\<lambda>j. 30) j" by simp
  from doDeath_effect [OF doDeath_example pos] doDeath_example
  show ?thesis
    by (simp add: SD_example_def params_example_def)
qed

subsection \<open>FreeLivingUpdater\<close>

lemma eggsProdRate_example: "eggsProdRate params_example SD_example = Inr (Some 5)"
  by (simp add: eggsProdRate_def productivefemaleworms_def np_eval SD_example_def
      params_example_def cong: ebind_weak_cong)

text \<open>
  Claim C8, as amended. Let the decay rate be non-zero. If the population is not empty,
  \<open>doFreeLive\<close> called with \<open>dt = 0\<close> ends in the state it was called in (whether it
  returns or raises on an unsupported \<open>reproFuncName\<close>). For every \<open>dt \<ge> 0\<close>, if the
  production rate the call computes is a non-negative number and \<open>freeLiving\<close> is a
  non-negative number before the call, the call returns and \<open>freeLiving\<close> is a
  non-negative number after it.
\<close>

theorem doFreeLive_dt0_and_nonneg:
  assumes L: "LDecayRate params \<noteq> 0"
  shows "(N params \<noteq> 0 \<longrightarrow> fst (doFreeLive params SD 0) = SD) \<and>
    (\<forall>dt r f. 0 \<le> dt \<and> eggsProdRate params SD = Inr (Some r) \<and> 0 \<le> r \<and>
        freeLiving SD = Some f \<and> 0 \<le> f \<longrightarrow>
        snd (doFreeLive params SD dt) = Inr () \<and>
        (\<exists>f'. freeLiving (fst (doFreeLive params SD dt)) = Some f' \<and> 0 \<le> f'))"
proof (intro conjI impI allI)
  assume n: "N params \<noteq> 0"
  show "fst (doFreeLive params SD 0) = SD"
  proof (cases "eggsProdRate params SD")
    case (Inl e)
    then show ?thesis by (simp add: doFreeLive_def)
  next
    case (Inr rate)
    with n have "rate \<noteq> None"
      by (auto simp: eggsProdRate_def ebind_Inr_iff np_divide_def)
    then obtain r where "rate = Some r" by auto
    with Inr L show ?thesis
      by (cases "freeLiving SD") (simp_all add: doFreeLive_def np_lift2_def np_divide_def)
  qed
next
  fix dt r f :: real
  assume h: "0 \<le> dt \<and> eggsProdRate params SD = Inr (Some r) \<and> 0 \<le> r \<and>
        freeLiving SD = Some f \<and> 0 \<le> f"
  then show "snd (doFreeLive params SD dt) = Inr ()" by (simp add: doFreeLive_def)
  let ?e = "exp (- LDecayRate params * dt)"
  have "0 \<le> (1 - ?e) / LDecayRate params"
  proof (cases "0 < LDecayRate params")
    case True
    with h have "- LDecayRate params * dt \<le> 0" by (simp add: mult_nonneg_nonneg)
    then have "?e \<le> 1" by simp
    with True show ?thesis by simp
  next
    case False
    with L have neg: "LDecayRate params < 0" by simp
    with h have "0 \<le> - LDecayRate params * dt"
      by (simp add: mult_nonpos_nonneg)
    then have "1 \<le> ?e" by simp
    with neg show ?thesis by (simp add: divide_nonpos_neg)
  qed
  with h have "0 \<le> r * ((1 - ?e) / LDecayRate params)"
    by (intro mult_nonneg_nonneg) auto
  then have "0 \<le> r * (1 - ?e) / LDecayRate params" by (simp only: times_divide_eq_right)
  moreover from h have "0 \<le> f * ?e" by (intro mult_nonneg_nonneg) auto
  ultimately have "0 \<le> f * ?e + r * (1 - ?e) / LDecayRate params"
    by linarith
  with h L show "\<exists>f'. freeLiving (fst (doFreeLive params SD dt)) = Some f' \<and> 0 \<le> f'"
    by (simp add: doFreeLive_def np_lift2_def np_divide_def Let_def)
qed

theorem doFreeLive_dt0_and_nonneg_witness:
  "LDecayRate params_example \<noteq> 0 \<and> N params_example \<noteq> 0 \<and>
   fst (doFreeLive params_example SD_example 0) = SD_example \<and>
   (0 :: real) \<le> 1 \<and> eggsProdRate params_example SD_example = Inr (Some 5) \<and>
   (0 :: real) \<le> 5 \<and> freeLiving SD_example = Some 10 \<and> (0 :: real) \<le> 10 \<and>
   snd (doFreeLive params_example SD_example 1) = Inr () \<and>
   (\<exists>f'. freeLiving (fst (doFreeLive params_example SD_example 1)) = Some f' \<and> 0 \<le> f')"
proof -
  have L: "LDecayRate params_example \<noteq> 0" and n: "N params_example \<noteq> 0"
    by (simp_all add: params_example_def)
  have f: "freeLiving SD_example = Some 10" by (simp add: SD_example_def)
  note th = doFreeLive_dt0_and_nonneg [OF L, of SD_example]
  from th n have 1: "fst (doFreeLive params_example SD_example 0) = SD_example" by blast
  from th eggsProdRate_example f
  have 2: "snd (doFreeLive params_example SD_example 1) = Inr () \<and>
    (\<exists>f'. freeLiving (fst (doFreeLive params_example SD_example 1)) = Some f' \<and> 0 \<le> f')"
    by (elim conjE allE [of _ 1] allE [of _ 5] allE [of _ 10]) simp
  from L n 1 2 f eggsProdRate_example show ?thesis by simp
qed

text \<open>
  Claim C8 as stated fails for a decay rate of 0: with \<open>dt = 0\<close> the update computes
  \<open>eggsProdRate * (1 - 1.0) / 0.0\<close>, which numpy evaluates to \<open>nan\<close> without raising, and
  \<open>freeLiving\<close>, 10 before the call, is not a number after it.
\<close>

theorem doFreeLive_zero_decay_rate:
  "freeLiving SD_example = Some 10 \<and>
   doFreeLive (params_example\<lparr>LDecayRate := 0\<rparr>) SD_example 0
     = (SD_example\<lparr>freeLiving := None\<rparr>, Inr ())"
  by (simp add: doFreeLive_def eggsProdRate_def productivefemaleworms_def np_lift2_def
      np_eval SD_example_def params_example_def cong: ebind_weak_cong)

subsection \<open>EventSampler: the single draw\<close>

lemmas doEvent_defs = doEvent_def wormDeath_def newWorm_def select_event_def
  below_ratio_def np_update_def

lemma Worms_total_update: "w\<lparr>total := v\<rparr> = \<lparr>total = v, female = female w\<rparr>"
  by (cases w) simp

lemma Worms_female_update: "w\<lparr>female := v\<rparr> = \<lparr>total = total w, female = v\<rparr>"
  by (cases w) simp

lemma newWorm_cases:
  assumes "newWorm u_gate u_female params e SD = (SD', out)"
  shows "SD' = SD \<or> acquisitionOf SD SD' e"
  using assms
  by (auto simp: newWorm_def np_update_def store_def andThen_def acquisitionOf_def
      wormsChanged_def Worms_total_update Worms_female_update
      split: sum.splits if_splits)

lemma wormDeath_cases:
  assumes "wormDeath u_death u_sex params SD = (SD', out)"
  shows "(SD' = SD \<and> out \<noteq> Inr ()) \<or> (\<exists>h. deathOf SD SD' h)"
  using assms
  by (auto simp: wormDeath_def np_update_def store_def andThen_def deathOf_def
      wormsChanged_def Worms_total_update Worms_female_update
      split: sum.splits if_splits)

lemma newWorm_returns:
  assumes "newWorm u_gate u_female params e SD = (SD', Inr ())"
  shows "\<exists>p. ebind (np_get (sv SD) (int e)) (np_get (v3 params)) = Inr p \<and>
           (if u_gate < p then acquisitionOf SD SD' e else SD' = SD)"
  using assms
  by (auto simp: newWorm_def np_update_def store_def andThen_def acquisitionOf_def
      wormsChanged_def Worms_total_update Worms_female_update
      split: sum.splits if_splits)

text \<open>
  Claim C1, as amended. Let \<open>e\<close> be the index the draw selects. If \<open>e\<close> is not the final
  (death) slot: for \<open>e < N\<close> the call changes nothing or applies one acquisition to host
  \<open>e\<close>, and when it returns it has applied the acquisition exactly when the variate
  passed the \<open>v3\<close> gate; for \<open>N < e < 2N\<close> it applies one reset of the vaccination status
  of host \<open>e - N\<close> (or raises with the state unchanged); for \<open>e > 2N\<close> it changes nothing.
  If \<open>e\<close> is the final slot and lies beyond \<open>2N\<close>, the call applies one worm death to one
  host (or raises with the state unchanged). No case applies two changes. The indices
  \<open>e = N\<close> and \<open>e = 2N\<close>, and a final slot at an index below \<open>2N\<close>, are not covered.
\<close>

theorem doEvent_one_change:
  assumes sel: "select_event u_event rates = Inr e"
    and run: "doEvent u_event u_death u_sex u_gate u_female rates params SD = (SD', out)"
  shows "(int e \<noteq> int (length rates) - 1 \<and> e < N params
            \<longrightarrow> (SD' = SD \<or> acquisitionOf SD SD' e) \<and>
                (out = Inr () \<longrightarrow>
                   (\<exists>p. ebind (np_get (sv SD) (int e)) (np_get (v3 params)) = Inr p \<and>
                      (if u_gate < p then acquisitionOf SD SD' e else SD' = SD)))) \<and>
         (int e \<noteq> int (length rates) - 1 \<and> N params < e \<and> e < 2 * N params
            \<longrightarrow> (SD' = SD \<and> out \<noteq> Inr ()) \<or> resetOf SD SD' (e - N params)) \<and>
         (int e \<noteq> int (length rates) - 1 \<and> 2 * N params < e \<longrightarrow> SD' = SD) \<and>
         (int e = int (length rates) - 1 \<and> 2 * N params < e
            \<longrightarrow> (SD' = SD \<and> out \<noteq> Inr ()) \<or> (\<exists>h. deathOf SD SD' h))"
proof (intro conjI impI)
  assume "int e \<noteq> int (length rates) - 1 \<and> e < N params"
  with sel run have nw: "newWorm u_gate u_female params e SD = (SD', out)"
    by (simp add: doEvent_def)
  then show "SD' = SD \<or> acquisitionOf SD SD' e" by (rule newWorm_cases)
  assume "out = Inr ()"
  with nw show "\<exists>p. ebind (np_get (sv SD) (int e)) (np_get (v3 params)) = Inr p \<and>
                  (if u_gate < p then acquisitionOf SD SD' e else SD' = SD)"
    by (intro newWorm_returns) simp
next
  assume "int e \<noteq> int (length rates) - 1 \<and> N params < e \<and> e < 2 * N params"
  with sel run show "(SD' = SD \<and> out \<noteq> Inr ()) \<or> resetOf SD SD' (e - N params)"
    by (auto simp: doEvent_def np_update_def store_def resetOf_def split: if_splits)
next
  assume "int e \<noteq> int (length rates) - 1 \<and> 2 * N params < e"
  with sel run show "SD' = SD" by (simp add: doEvent_def)
next
  assume h: "int e = int (length rates) - 1 \<and> 2 * N params < e"
  with sel run have "wormDeath u_death u_sex params SD = (SD', out)"
    by (cases "wormDeath u_death u_sex params SD")
      (auto simp: doEvent_def andThen_def split: sum.splits)
  then show "(SD' = SD \<and> out \<noteq> Inr ()) \<or> (\<exists>h. deathOf SD SD' h)"
    by (rule wormDeath_cases)
qed

lemma select_event_examples:
  "select_event (1 / 10) [1, 1, 1, 1, 1] = Inr 0"
  "select_event (7 / 10) [1, 1, 1, 1, 1] = Inr 3"
  "select_event (1 / 2) [0, 0, 0, 1] = Inr 3"
  by (simp_all add: select_event_def np_eval)

lemma doEvent_acquisition_example:
  "doEvent (1 / 10) (1 / 2) (1 / 2) (1 / 2) (1 / 4) [1, 1, 1, 1, 1] params_example SD_example
     = (SD_example\<lparr>worms := \<lparr>total = [6, 7], female = [4, 2]\<rparr>\<rparr>, Inr ())"
  by (simp add: doEvent_defs np_eval SD_example_def params_example_def
      cong: andThen_weak_cong ebind_weak_cong)

lemma doEvent_reset_example:
  "doEvent (7 / 10) (1 / 2) (1 / 2) (1 / 2) (1 / 4) [1, 1, 1, 1, 1] params_example
       SD_vaccinated
     = (SD_vaccinated\<lparr>sv := [1, 0]\<rparr>, Inr ())"
  by (simp add: doEvent_defs np_eval SD_vaccinated_def SD_example_def params_example_def
      numeral_2_eq_2 cong: andThen_weak_cong ebind_weak_cong)

lemma doEvent_death_example:
  "doEvent (1 / 2) (1 / 2) (42 / 100) (1 / 2) (1 / 2) [0, 0, 0, 1] params_one_host
       SD_one_host
     = (SD_one_host\<lparr>worms := \<lparr>total = [9], female = [3]\<rparr>\<rparr>, Inr ())"
  by (simp add: doEvent_defs np_eval SD_one_host_def params_one_host_def params_example_def
      cong: andThen_weak_cong ebind_weak_cong)

theorem doEvent_one_change_witness:
  "select_event (1 / 10) [1, 1, 1, 1, 1] = Inr 0 \<and>
   doEvent (1 / 10) (1 / 2) (1 / 2) (1 / 2) (1 / 4) [1, 1, 1, 1, 1] params_example SD_example
     = (SD_example\<lparr>worms := \<lparr>total = [6, 7], female = [4, 2]\<rparr>\<rparr>, Inr ()) \<and>
   acquisitionOf SD_example (SD_example\<lparr>worms := \<lparr>total = [6, 7], female = [4, 2]\<rparr>\<rparr>) 0 \<and>
   select_event (7 / 10) [1, 1, 1, 1, 1] = Inr 3 \<and>
   doEvent (7 / 10) (1 / 2) (1 / 2) (1 / 2) (1 / 4) [1, 1, 1, 1, 1] params_example
       SD_vaccinated
     = (SD_vaccinated\<lparr>sv := [1, 0]\<rparr>, Inr ()) \<and>
   resetOf SD_vaccinated (SD_vaccinated\<lparr>sv := [1, 0]\<rparr>) (3 - N params_example) \<and>
   select_event (1 / 2) [0, 0, 0, 1] = Inr 3 \<and>
   doEvent (1 / 2) (1 / 2) (42 / 100) (1 / 2) (1 / 2) [0, 0, 0, 1] params_one_host
       SD_one_host
     = (SD_one_host\<lparr>worms := \<lparr>total = [9], female = [3]\<rparr>\<rparr>, Inr ()) \<and>
   (\<exists>h. deathOf SD_one_host (SD_one_host\<lparr>worms := \<lparr>total = [9], female = [3]\<rparr>\<rparr>) h)"
proof -
  have a: "SD_example\<lparr>worms := \<lparr>total = [6, 7], female = [4, 2]\<rparr>\<rparr> \<noteq> SD_example"
    and b: "ebind (np_get (sv SD_example) (int 0)) (np_get (v3 params_example)) = Inr 1"
    by (simp_all add: SD_example_def params_example_def np_eval)
  have n: "N params_example = 2" "N params_one_host = 1"
    by (simp_all add: params_example_def params_one_host_def)
  from doEvent_one_change [OF select_event_examples(1) doEvent_acquisition_example] a b n
  have 1: "acquisitionOf SD_example
             (SD_example\<lparr>worms := \<lparr>total = [6, 7], female = [4, 2]\<rparr>\<rparr>) 0"
    by simp
  from doEvent_one_change [OF select_event_examples(2) doEvent_reset_example] n
  have 2: "resetOf SD_vaccinated (SD_vaccinated\<lparr>sv := [1, 0]\<rparr>) (3 - N params_example)"
    by simp
  from doEvent_one_change [OF select_event_examples(3) doEvent_death_example] n
  have 3: "\<exists>h. deathOf SD_one_host
                 (SD_one_host\<lparr>worms := \<lparr>total = [9], female = [3]\<rparr>\<rparr>) h"
    by simp
  from 1 2 3 select_event_examples doEvent_acquisition_example doEvent_reset_example
    doEvent_death_example
  show ?thesis by simp
qed

text \<open>
  Claim C2. One host with \<open>wormsTotal = 10\<close> and \<open>wormsFemale = 4\<close>, the death slot selected,
  the host chosen by the nested draw and the variate 0.42 for the sex of the lost worm:
  the code decrements the total first and compares the variate with 4/9, so the female
  count drops to 3, although 0.42 is not below the female fraction 4/10 before the
  decrement. The worm counts are the same for a rate vector of length \<open>2N + 2\<close>, where the
  call returns, and of length \<open>2N + 1\<close>, where it then raises \<open>IndexError\<close>.
\<close>

theorem doEvent_female_fraction_after_decrement:
  "doEvent (1 / 2) (1 / 2) (42 / 100) (1 / 2) (1 / 2) [0, 0, 0, 1] params_one_host
       SD_one_host
     = (SD_one_host\<lparr>worms := \<lparr>total = [9], female = [3]\<rparr>\<rparr>, Inr ()) \<and>
   doEvent (1 / 2) (1 / 2) (42 / 100) (1 / 2) (1 / 2) [0, 0, 1] params_one_host
       SD_one_host
     = (SD_one_host\<lparr>worms := \<lparr>total = [9], female = [3]\<rparr>\<rparr>, Inl IndexError) \<and>
   total (worms SD_one_host) = [10] \<and> female (worms SD_one_host) = [4] \<and>
   \<not> (42 / 100 :: real) < 4 / 10"
  by (simp add: doEvent_defs np_eval SD_one_host_def params_one_host_def params_example_def
      cong: andThen_weak_cong ebind_weak_cong)

text \<open>
  Claim C1 as stated fails: an acquisition event for a vaccinated host whose \<open>v3\<close> gate
  is closed (\<open>v3 = 0\<close>) returns with the state unchanged, so the call applies none of the
  three changes (every host is vaccinated, so a reset would have changed the state).
\<close>

theorem doEvent_gate_closed_no_change:
  "doEvent (1 / 10) (1 / 2) (1 / 2) (1 / 2) (1 / 2) [1, 1, 1, 1, 1] params_example
       SD_vaccinated
     = (SD_vaccinated, Inr ()) \<and>
   select_event (1 / 10) [1, 1, 1, 1, 1] = Inr 0 \<and>
   sv SD_vaccinated = [1, 1] \<and> v3 params_example = [1, 0]"
  by (simp add: doEvent_defs np_eval SD_vaccinated_def SD_example_def params_example_def
      cong: andThen_weak_cong ebind_weak_cong)

subsection \<open>EventSampler: the batched draw\<close>

lemma upt_0_2: "[0..<2] = [0, 1]"
  by (simp add: numeral_2_eq_2)

lemma replicate_2: "replicate 2 x = [x, x]"
  by (simp add: numeral_2_eq_2)

lemmas doEvent2_defs = doEvent2_def eventDeltas_def events_of_def np_place_def np_where_def
  below_ratio_def

text \<open>
  Claim C3. Two hosts, \<open>multiplier = 2\<close>, six unit rates. When both draws are acquisitions
  for host 0 that pass the gate and are female, the per-draw changes are \<open>[1, 1]\<close> for the
  total and for the female count, yet host 0 goes from 5 to 6 worms and from 3 to 4
  females: \<open>np.put\<close> writes \<open>old + change\<close> once per draw to the same index and the
  last write stays. When the first draw is a female acquisition and the second a
  non-female death, both for host 0, the changes are \<open>[1, -1]\<close> and \<open>[1, 0]\<close>, and host 0
  ends with 4 worms and 3 females where the net effect is 5 worms and 4 females.
\<close>

theorem doEvent2_keeps_last_draw_only:
  "doEvent2 (\<lambda>i. 1 / 12) (\<lambda>i. 1 / 2) (\<lambda>i. 9 / 10) (\<lambda>i. 1 / 4) 6 [1, 2, 3, 4, 5, 6]
       params_example SD_example 2
     = (SD_example\<lparr>worms := \<lparr>total = [6, 7], female = [4, 2]\<rparr>\<rparr>, Inr ()) \<and>
   eventDeltas (\<lambda>i. 1 / 12) (\<lambda>i. 1 / 2) (\<lambda>i. 9 / 10) (\<lambda>i. 1 / 4) 6 [1, 2, 3, 4, 5, 6]
       params_example SD_example 2
     = Inr ([], [0, 0], [1, 1], [1, 1]) \<and>
   doEvent2 (\<lambda>i. if i = 0 then 1 / 12 else 9 / 12) (\<lambda>i. 1 / 2) (\<lambda>i. 9 / 10) (\<lambda>i. 1 / 4) 6
       [1, 2, 3, 4, 5, 6] params_example SD_example 2
     = (SD_example\<lparr>worms := \<lparr>total = [4, 7], female = [3, 2]\<rparr>\<rparr>, Inr ()) \<and>
   eventDeltas (\<lambda>i. if i = 0 then 1 / 12 else 9 / 12) (\<lambda>i. 1 / 2) (\<lambda>i. 9 / 10)
       (\<lambda>i. 1 / 4) 6 [1, 2, 3, 4, 5, 6] params_example SD_example 2
     = Inr ([], [0, 0], [1, - 1], [1, 0]) \<and>
   total (worms SD_example) = [5, 7] \<and> female (worms SD_example) = [3, 2]"
  by (simp add: doEvent2_defs np_eval Let_def SD_example_def params_example_def upt_0_2
      replicate_2 numeral_2_eq_2 [symmetric] cong: andThen_weak_cong ebind_weak_cong)

subsection \<open>InterventionEngine: doChemoAgeRange\<close>

lemmas doChemoAgeRange_defs = doChemoAgeRange_def toTreatNowOf_def drugShare_def
  giveDrug_def np_binomial_def np_assign_def

text \<open>
  Claim C4. Two hosts of age 10 with the age band \<open>[5, 15]\<close>, coverage 1 and drug 1 given
  to the whole cohort with efficacy 1. Host 0 does not comply and host 1 does, so the
  cohort \<open>toTreatNow\<close> is host 1 alone. The code numbers the treated from 0 and uses these
  numbers as host indices: host 0, outside the cohort, loses its 5 worms (3 female), and
  host 1, the cohort, keeps its 7 worms (2 female).
\<close>

theorem doChemoAgeRange_treats_host_outside_cohort:
  "toTreatNowOf (\<lambda>i. 1 / 2) params_example SD_example 10 5 15 1 = Inr [False, True] \<and>
   doChemoAgeRange (\<lambda>i. 1 / 2) [] (\<lambda>j. 3) (\<lambda>j. 2) (\<lambda>j. 0) (\<lambda>j. 0) params_example
       SD_example 10 5 15 1
     = (SD_example\<lparr>worms := \<lparr>total = [0, 7], female = [0, 2]\<rparr>,
          attendanceRecord := [Indices [0]], ageAtChemo := [[10, 10]],
          adherenceFactorAtChemo := [[1 / 2, 1 / 2]], nChemo1 := Some 1\<rparr>, Inr ()) \<and>
   total (worms SD_example) = [5, 7] \<and> female (worms SD_example) = [3, 2] \<and>
   compliers SD_example = [False, True]"
  by (simp add: doChemoAgeRange_defs np_eval SD_example_def params_example_def
      numeral_2_eq_2 cong: andThen_weak_cong ebind_weak_cong)

end
